theory Spec2Isabelle
  imports Main "HOL-Library.Word"
begin

unbundle bit_operations_syntax

section \<open>JavaScript values\<close>

text \<open>
  A JavaScript string is a sequence of UTF-16 code units. The literals of \<^verbatim>\<open>App.tsx\<close>
  are ASCII, so \<open>js\<close> embeds an Isabelle string literal code unit by code unit.
\<close>

type_synonym jsstring = "16 word list"

definition js :: "string \<Rightarrow> jsstring" where
  "js cs = map (\<lambda>c. of_nat (of_char c)) cs"

text \<open>
  \<^verbatim>\<open>String.prototype.trim\<close> removes leading and trailing WhiteSpace and LineTerminator
  code points (ECMAScript: TAB, VT, FF, SP, NBSP, ZWNBSP and the category Zs; LF, CR, LS,
  PS). All of them are in the basic plane, so the test is on single code units.
\<close>

definition isWhiteSpace :: "16 word \<Rightarrow> bool" where
  "isWhiteSpace c =
     (c = 0x0009 \<or> c = 0x000B \<or> c = 0x000C \<or> c = 0x0020 \<or> c = 0x00A0 \<or> c = 0xFEFF \<or>
      c = 0x1680 \<or> (0x2000 \<le> c \<and> c \<le> 0x200A) \<or> c = 0x202F \<or> c = 0x205F \<or> c = 0x3000)"

definition isLineTerminator :: "16 word \<Rightarrow> bool" where
  "isLineTerminator c = (c = 0x000A \<or> c = 0x000D \<or> c = 0x2028 \<or> c = 0x2029)"

definition isTrimmed :: "16 word \<Rightarrow> bool" where
  "isTrimmed c = (isWhiteSpace c \<or> isLineTerminator c)"

definition trim :: "jsstring \<Rightarrow> jsstring" where
  "trim s = rev (dropWhile isTrimmed (rev (dropWhile isTrimmed s)))"

text \<open>
  The value \<^verbatim>\<open>data\<close> that \<^verbatim>\<open>response.json()\<close> resolves to has the TypeScript type
  \<^verbatim>\<open>any\<close>: whatever it holds flows unchecked into \<^verbatim>\<open>setGeneratedImage\<close> and
  \<^verbatim>\<open>setError\<close>. A number is its IEEE-754 binary64 bit pattern; an object is the list
  of its own properties, each name bound once (a lookup takes the first binding).
\<close>

datatype jsval =
    JUndefined
  | JNull
  | JBool bool
  | JNumber "64 word"
  | JString jsstring
  | JArray "jsval list"
  | JObject "(jsstring \<times> jsval) list"

text \<open>ToBoolean: what \<^verbatim>\<open>if (v)\<close>, \<^verbatim>\<open>!v\<close>, \<^verbatim>\<open>v || w\<close> and \<^verbatim>\<open>v && w\<close> test.\<close>

definition isZeroOrNaN :: "64 word \<Rightarrow> bool" where
  "isZeroOrNaN w =
     (w AND 0x7FFFFFFFFFFFFFFF = 0 \<or> 0x7FF0000000000000 < w AND 0x7FFFFFFFFFFFFFFF)"

fun truthy :: "jsval \<Rightarrow> bool" where
  "truthy JUndefined = False"
| "truthy JNull = False"
| "truthy (JBool b) = b"
| "truthy (JNumber w) = (\<not> isZeroOrNaN w)"
| "truthy (JString s) = (s \<noteq> [])"
| "truthy (JArray xs) = True"
| "truthy (JObject kvs) = True"

datatype exn = TypeError | FetchRejected | BodyRejected

text \<open>
  The property read \<^verbatim>\<open>data.k\<close> for the four names the component reads
  (\<^verbatim>\<open>success\<close>, \<^verbatim>\<open>imageUrl\<close>, \<^verbatim>\<open>prompt\<close>, \<^verbatim>\<open>error\<close>): a TypeError on
  \<^verbatim>\<open>null\<close> and \<^verbatim>\<open>undefined\<close>, the own property of an object, and
  \<^verbatim>\<open>undefined\<close> everywhere else (no built-in prototype defines these names).
\<close>

fun js_get :: "jsval \<Rightarrow> jsstring \<Rightarrow> exn + jsval" where
  "js_get JUndefined k = Inl TypeError"
| "js_get JNull k = Inl TypeError"
| "js_get (JObject kvs) k = (case map_of kvs k of None \<Rightarrow> Inr JUndefined | Some v \<Rightarrow> Inr v)"
| "js_get v k = Inr JUndefined"

section \<open>The component's state\<close>

text \<open>\<^verbatim>\<open>interface GeneratedImage { url; prompt }\<close>; the field \<^verbatim>\<open>prompt\<close> is named
  \<open>image_prompt\<close> here, apart from the state variable \<^verbatim>\<open>prompt\<close>.\<close>

record GeneratedImage =
  url :: jsval
  image_prompt :: jsval

text \<open>The four \<^verbatim>\<open>useState\<close> hooks of \<^verbatim>\<open>App\<close>.\<close>

record app_state =
  prompt :: jsstring
  isGenerating :: bool
  generatedImage :: "GeneratedImage option"
  error :: jsval

definition initial_state :: app_state where
  "initial_state =
     \<lparr>prompt = js '''', isGenerating = False, generatedImage = None, error = JString (js '''')\<rparr>"

text \<open>
  The two requests the component issues: the POST to
  \<^verbatim>\<open>http://localhost:5000/api/generate-image\<close> whose JSON body is
  \<^verbatim>\<open>{prompt: p}\<close>, and the GET of \<^verbatim>\<open>generatedImage.url\<close>.
\<close>

datatype request = PostGenerateImage jsstring | GetImage jsval

text \<open>
  An \<^verbatim>\<open>async\<close> handler runs synchronously up to its first \<^verbatim>\<open>await\<close>. It either
  returns there (\<open>Done\<close>) or has issued a request and is suspended on it (\<open>Await\<close>);
  the state is the one React renders once the synchronous part has returned.
\<close>

datatype suspended = Done app_state | Await app_state request

section \<open>generateImage\<close>

definition generateImage :: "app_state \<Rightarrow> suspended" where
  "generateImage s =
     (if \<not> truthy (JString (trim (prompt s)))
      then Done (s\<lparr>error := JString (js ''Please enter a prompt'')\<rparr>)
      else Await (s\<lparr>isGenerating := True, error := JString (js '''')\<rparr>)
                 (PostGenerateImage (trim (prompt s))))"

text \<open>How the awaited request settles: \<^verbatim>\<open>fetch\<close> rejects, or it resolves and
  \<^verbatim>\<open>response.json()\<close> rejects, or \<^verbatim>\<open>response.json()\<close> resolves to \<open>data\<close>.\<close>

datatype response = FetchRejects | JsonRejects | Json jsval

text \<open>The rest of the \<^verbatim>\<open>try\<close> block, run on the state current when the request settles
  (the setters write constants and response fields, never a value read from the closure).\<close>

definition generateImage_try :: "response \<Rightarrow> app_state \<Rightarrow> exn + app_state" where
  "generateImage_try r s =
     (case r of
        FetchRejects \<Rightarrow> Inl FetchRejected
      | JsonRejects \<Rightarrow> Inl BodyRejected
      | Json data \<Rightarrow>
          (case js_get data (js ''success'') of
             Inl e \<Rightarrow> Inl e
           | Inr success \<Rightarrow>
               if truthy success then
                 (case js_get data (js ''imageUrl'') of
                    Inl e \<Rightarrow> Inl e
                  | Inr imageUrl \<Rightarrow>
                      (case js_get data (js ''prompt'') of
                         Inl e \<Rightarrow> Inl e
                       | Inr p \<Rightarrow>
                           Inr (s\<lparr>generatedImage := Some \<lparr>url = imageUrl, image_prompt = p\<rparr>\<rparr>)))
               else
                 (case js_get data (js ''error'') of
                    Inl e \<Rightarrow> Inl e
                  | Inr err \<Rightarrow>
                      Inr (s\<lparr>error := (if truthy err then err
                                        else JString (js ''Failed to generate image''))\<rparr>))))"

text \<open>\<^verbatim>\<open>try\<close>, \<^verbatim>\<open>catch\<close>, \<^verbatim>\<open>finally\<close>.\<close>

definition generateImage_resume :: "response \<Rightarrow> app_state \<Rightarrow> app_state" where
  "generateImage_resume r s =
     (case generateImage_try r s of
        Inl err \<Rightarrow>
          s\<lparr>error := JString (js ''Network error. Please make sure the server is running.'')\<rparr>
      | Inr s' \<Rightarrow> s')
     \<lparr>isGenerating := False\<rparr>"

text \<open>A run with nothing else happening between the request and its settling.\<close>

definition generateImage_run :: "response \<Rightarrow> app_state \<Rightarrow> app_state" where
  "generateImage_run r s =
     (case generateImage s of
        Done s' \<Rightarrow> s'
      | Await s' q \<Rightarrow> generateImage_resume r s')"

section \<open>downloadImage\<close>

text \<open>The synchronous part: the guard, then \<^verbatim>\<open>fetch(generatedImage.url)\<close>.\<close>

definition downloadImage :: "app_state \<Rightarrow> suspended" where
  "downloadImage s =
     (case generatedImage s of
        None \<Rightarrow> Done s
      | Some g \<Rightarrow> Await s (GetImage (url g)))"

text \<open>How the awaited download settles: \<^verbatim>\<open>fetch\<close> rejects, or \<^verbatim>\<open>response.blob()\<close>
  rejects, or it resolves to the bytes of the body.\<close>

datatype download = DownloadFetchRejects | BlobRejects | Blob "8 word list"

text \<open>A file handed to the browser's save: the \<^verbatim>\<open>download\<close> attribute of the link and
  the bytes behind its object URL.\<close>

record saved_file =
  filename :: jsstring
  bytes :: "8 word list"

definition downloadImage_try :: "download \<Rightarrow> exn + saved_file" where
  "downloadImage_try d =
     (case d of
        DownloadFetchRejects \<Rightarrow> Inl FetchRejected
      | BlobRejects \<Rightarrow> Inl BodyRejected
      | Blob b \<Rightarrow> Inr \<lparr>filename = js ''generated-image.png'', bytes = b\<rparr>)"

text \<open>\<^verbatim>\<open>try\<close> and \<^verbatim>\<open>catch\<close>: the new state and the file saved, if any.\<close>

definition downloadImage_resume :: "download \<Rightarrow> app_state \<Rightarrow> app_state \<times> saved_file option" where
  "downloadImage_resume d s =
     (case downloadImage_try d of
        Inl err \<Rightarrow> (s\<lparr>error := JString (js ''Failed to download image'')\<rparr>, None)
      | Inr f \<Rightarrow> (s, Some f))"

definition downloadImage_run :: "download \<Rightarrow> app_state \<Rightarrow> app_state \<times> saved_file option" where
  "downloadImage_run d s =
     (case downloadImage s of
        Done s' \<Rightarrow> (s', None)
      | Await s' q \<Rightarrow> downloadImage_resume d s')"

section \<open>handleKeyPress and the rendered tree\<close>

definition handleKeyPress :: "jsstring \<Rightarrow> app_state \<Rightarrow> suspended" where
  "handleKeyPress key s =
     (if key = js ''Enter'' \<and> \<not> isGenerating s then generateImage s else Done s)"

text \<open>What the JSX of \<^verbatim>\<open>App\<close> selects: the \<^verbatim>\<open>disabled\<close> attributes of the textarea and
  of the Generate button, and the three conditional blocks.\<close>

record view =
  textareaDisabled :: bool
  generateDisabled :: bool
  errorBox :: bool
  resultPanel :: bool
  loadingPanel :: bool

definition render :: "app_state \<Rightarrow> view" where
  "render s =
     \<lparr>textareaDisabled = isGenerating s,
      generateDisabled = (isGenerating s \<or> \<not> truthy (JString (trim (prompt s)))),
      errorBox = truthy (error s),
      resultPanel = (generatedImage s \<noteq> None),
      loadingPanel = (isGenerating s \<and> \<not> (generatedImage s \<noteq> None))\<rparr>"

section \<open>The page as a transition system\<close>

text \<open>The rendered state, the requests issued and not yet settled (oldest first), and the
  files saved so far.\<close>

record page =
  ui :: app_state
  inflight :: "request list"
  saved :: "saved_file list"

definition initial_page :: page where
  "initial_page = \<lparr>ui = initial_state, inflight = [], saved = []\<rparr>"

text \<open>
  What can happen to the page: the user types (\<^verbatim>\<open>onChange\<close>), presses a key in the
  textarea (\<^verbatim>\<open>onKeyPress\<close>), clicks one of the two buttons, or a request in flight
  settles and the suspended handler resumes.
\<close>

datatype event =
    Change jsstring
  | KeyPress jsstring
  | ClickGenerate
  | ClickDownload
  | GenerateSettles response
  | DownloadSettles download

definition launch :: "suspended \<Rightarrow> page \<Rightarrow> page" where
  "launch h p =
     (case h of
        Done s \<Rightarrow> p\<lparr>ui := s\<rparr>
      | Await s q \<Rightarrow> p\<lparr>ui := s, inflight := inflight p @ [q]\<rparr>)"

fun isGenerate :: "request \<Rightarrow> bool" where
  "isGenerate (PostGenerateImage b) = True"
| "isGenerate (GetImage u) = False"

fun isDownload :: "request \<Rightarrow> bool" where
  "isDownload (PostGenerateImage b) = False"
| "isDownload (GetImage u) = True"

text \<open>The oldest request of a kind leaves the list, if there is one.\<close>

fun settle :: "(request \<Rightarrow> bool) \<Rightarrow> request list \<Rightarrow> request list option" where
  "settle k [] = None"
| "settle k (q # qs) =
     (if k q then Some qs
      else (case settle k qs of None \<Rightarrow> None | Some qs' \<Rightarrow> Some (q # qs')))"

text \<open>
  One event; \<open>None\<close> when the page cannot receive it: a disabled control delivers no event,
  the Download button exists only inside the result panel, and only a request in flight
  can settle.
\<close>

fun step :: "event \<Rightarrow> page \<Rightarrow> page option" where
  "step (Change v) p =
     (if textareaDisabled (render (ui p)) then None
      else Some (p\<lparr>ui := (ui p)\<lparr>prompt := v\<rparr>\<rparr>))"
| "step (KeyPress key) p =
     (if textareaDisabled (render (ui p)) then None
      else Some (launch (handleKeyPress key (ui p)) p))"
| "step ClickGenerate p =
     (if generateDisabled (render (ui p)) then None
      else Some (launch (generateImage (ui p)) p))"
| "step ClickDownload p =
     (if resultPanel (render (ui p)) then Some (launch (downloadImage (ui p)) p)
      else None)"
| "step (GenerateSettles r) p =
     (case settle isGenerate (inflight p) of
        None \<Rightarrow> None
      | Some qs \<Rightarrow> Some (p\<lparr>ui := generateImage_resume r (ui p), inflight := qs\<rparr>))"
| "step (DownloadSettles d) p =
     (case settle isDownload (inflight p) of
        None \<Rightarrow> None
      | Some qs \<Rightarrow>
          (case downloadImage_resume d (ui p) of
             (s, f) \<Rightarrow>
               Some (p\<lparr>ui := s, inflight := qs,
                        saved := saved p @ (case f of None \<Rightarrow> [] | Some x \<Rightarrow> [x])\<rparr>)))"

fun exec :: "event list \<Rightarrow> page \<Rightarrow> page option" where
  "exec [] p = Some p"
| "exec (e # es) p = (case step e p of None \<Rightarrow> None | Some p' \<Rightarrow> exec es p')"

inductive reachable :: "page \<Rightarrow> bool" where
  reachable_initial: "reachable initial_page"
| reachable_step: "reachable p \<Longrightarrow> step e p = Some p' \<Longrightarrow> reachable p'"

section \<open>Invariants of the reachable pages\<close>

text \<open>A Generate request is in flight exactly while \<^verbatim>\<open>isGenerating\<close> is set, and there is
  never more than one.\<close>

definition generate_count_ok :: "page \<Rightarrow> bool" where
  "generate_count_ok p =
     (length (filter isGenerate (inflight p)) = (if isGenerating (ui p) then 1 else 0))"

text \<open>While no image has been generated yet, no download is in flight, and during a
  generation no error is displayed.\<close>

definition loading_clean :: "page \<Rightarrow> bool" where
  "loading_clean p =
     (generatedImage (ui p) = None \<longrightarrow>
        filter isDownload (inflight p) = [] \<and> (isGenerating (ui p) \<longrightarrow> \<not> truthy (error (ui p))))"

section \<open>Basic facts\<close>

lemmas eval_defs = js_def trim_def isTrimmed_def isWhiteSpace_def isLineTerminator_def
  initial_page_def initial_state_def render_def launch_def generateImage_def
  generateImage_resume_def generateImage_try_def downloadImage_def downloadImage_resume_def
  downloadImage_try_def handleKeyPress_def generateImage_run_def downloadImage_run_def

lemma js_Nil [simp]: "js [] = []"
  by (simp add: js_def)

lemma trim_empty_iff: "trim s = [] \<longleftrightarrow> (\<forall>c\<in>set s. isTrimmed c)"
proof
  assume "trim s = []"
  then have "dropWhile isTrimmed (rev (dropWhile isTrimmed s)) = []"
    by (simp add: trim_def)
  then have a: "\<forall>c\<in>set (dropWhile isTrimmed s). isTrimmed c"
    by (simp add: dropWhile_eq_Nil_conv)
  show "\<forall>c\<in>set s. isTrimmed c"
  proof (cases "dropWhile isTrimmed s")
    case Nil
    then show ?thesis by (simp add: dropWhile_eq_Nil_conv)
  next
    case (Cons x xs)
    then have "\<not> isTrimmed x" by (metis hd_dropWhile list.sel(1) list.distinct(1))
    moreover have "isTrimmed x" using a Cons by simp
    ultimately show ?thesis by simp
  qed
next
  assume "\<forall>c\<in>set s. isTrimmed c"
  then have e: "dropWhile isTrimmed s = []" by simp
  show "trim s = []" unfolding trim_def e by simp
qed

text \<open>A value that has one property read has them all: it is neither \<^verbatim>\<open>null\<close> nor
  \<^verbatim>\<open>undefined\<close>.\<close>

lemma js_get_total: "js_get data k = Inr v \<Longrightarrow> \<exists>w. js_get data k' = Inr w"
  by (cases data) (auto split: option.splits)

subsection \<open>The three ways generateImage resumes\<close>

lemma generateImage_resume_throws:
  "generateImage_try r s = Inl e \<Longrightarrow>
   generateImage_resume r s =
     s\<lparr>error := JString (js ''Network error. Please make sure the server is running.''),
       isGenerating := False\<rparr>"
  by (simp add: generateImage_resume_def)

lemma generateImage_resume_success:
  assumes "js_get data (js ''success'') = Inr v" and "truthy v"
    and "js_get data (js ''imageUrl'') = Inr u" and "js_get data (js ''prompt'') = Inr q"
  shows "generateImage_resume (Json data) s =
     s\<lparr>generatedImage := Some \<lparr>url = u, image_prompt = q\<rparr>, isGenerating := False\<rparr>"
  using assms by (simp add: generateImage_resume_def generateImage_try_def)

lemma generateImage_resume_failure:
  assumes "js_get data (js ''success'') = Inr v" and "\<not> truthy v"
    and "js_get data (js ''error'') = Inr e"
  shows "generateImage_resume (Json data) s =
     s\<lparr>error := (if truthy e then e else JString (js ''Failed to generate image'')),
       isGenerating := False\<rparr>"
  using assms by (simp add: generateImage_resume_def generateImage_try_def)

lemma generateImage_resume_not_generating: "\<not> isGenerating (generateImage_resume r s)"
  by (simp add: generateImage_resume_def split: sum.splits)

lemma generateImage_cases:
  "generateImage s = Done (s\<lparr>error := JString (js ''Please enter a prompt'')\<rparr>) \<or>
   generateImage s = Await (s\<lparr>isGenerating := True, error := JString (js '''')\<rparr>)
                           (PostGenerateImage (trim (prompt s)))"
  by (simp add: generateImage_def)

lemma generateImage_resume_cases:
  "generateImage_resume r s =
     s\<lparr>error := JString (js ''Network error. Please make sure the server is running.''),
       isGenerating := False\<rparr> \<or>
   (\<exists>g. generateImage_resume r s = s\<lparr>generatedImage := Some g, isGenerating := False\<rparr>) \<or>
   generateImage_resume r s =
     s\<lparr>error := JString (js ''Failed to generate image''), isGenerating := False\<rparr> \<or>
   (\<exists>data e. r = Json data \<and> js_get data (js ''error'') = Inr e \<and> truthy e \<and>
      generateImage_resume r s = s\<lparr>error := e, isGenerating := False\<rparr>)"
  by (auto simp: generateImage_resume_def generateImage_try_def split: response.splits sum.splits)

lemma downloadImage_resume_cases:
  "downloadImage_resume d s = (s\<lparr>error := JString (js ''Failed to download image'')\<rparr>, None) \<or>
   (\<exists>b. downloadImage_resume d s = (s, Some \<lparr>filename = js ''generated-image.png'', bytes = b\<rparr>))"
  by (simp add: downloadImage_resume_def downloadImage_try_def split: download.splits)

subsection \<open>Requests in flight\<close>

lemma settle_filter:
  "settle k qs = Some qs' \<Longrightarrow> length (filter k qs) = Suc (length (filter k qs'))"
  by (induction qs arbitrary: qs') (auto split: if_splits option.splits)

lemma settle_other:
  "settle k qs = Some qs' \<Longrightarrow> (\<And>q. k q \<Longrightarrow> \<not> k' q) \<Longrightarrow> filter k' qs' = filter k' qs"
  by (induction qs arbitrary: qs') (auto split: if_splits option.splits)

lemma isGenerate_not_isDownload: "isGenerate q \<Longrightarrow> \<not> isDownload q"
  by (cases q) simp_all

lemma isDownload_not_isGenerate: "isDownload q \<Longrightarrow> \<not> isGenerate q"
  by (cases q) simp_all

subsection \<open>Every event keeps the invariants\<close>

lemma generate_count_ok_step:
  assumes "generate_count_ok p" and "step e p = Some p'"
  shows "generate_count_ok p'"
proof (cases e)
  case (Change v)
  with assms show ?thesis
    by (auto simp: generate_count_ok_def render_def split: if_splits)
next
  case (KeyPress key)
  with assms generateImage_cases [of "ui p"] show ?thesis
    by (auto simp: generate_count_ok_def render_def handleKeyPress_def launch_def split: if_splits)
next
  case ClickGenerate
  with assms generateImage_cases [of "ui p"] show ?thesis
    by (auto simp: generate_count_ok_def render_def launch_def split: if_splits)
next
  case ClickDownload
  with assms show ?thesis
    by (auto simp: generate_count_ok_def render_def launch_def downloadImage_def
        split: if_splits option.splits)
next
  case (GenerateSettles r)
  with assms obtain qs where qs: "settle isGenerate (inflight p) = Some qs"
    and p': "p' = p\<lparr>ui := generateImage_resume r (ui p), inflight := qs\<rparr>"
    by (auto split: option.splits)
  from settle_filter [OF qs] assms(1) have "length (filter isGenerate qs) = 0"
    by (simp add: generate_count_ok_def split: if_splits)
  then show ?thesis
    by (simp add: p' generate_count_ok_def generateImage_resume_not_generating)
next
  case (DownloadSettles d)
  with assms obtain qs s f where qs: "settle isDownload (inflight p) = Some qs"
    and d: "downloadImage_resume d (ui p) = (s, f)"
    and p': "p' = p\<lparr>ui := s, inflight := qs,
        saved := saved p @ (case f of None \<Rightarrow> [] | Some x \<Rightarrow> [x])\<rparr>"
    by (auto split: option.splits prod.splits)
  have "filter isGenerate qs = filter isGenerate (inflight p)"
    using settle_other [OF qs] isDownload_not_isGenerate by blast
  moreover have "isGenerating s = isGenerating (ui p)"
    using d downloadImage_resume_cases [of d "ui p"] by auto
  ultimately show ?thesis
    using assms(1) by (simp add: p' generate_count_ok_def)
qed

lemma loading_clean_step:
  assumes "loading_clean p" and "step e p = Some p'"
  shows "loading_clean p'"
proof (cases e)
  case (Change v)
  with assms show ?thesis
    by (auto simp: loading_clean_def render_def split: if_splits)
next
  case (KeyPress key)
  with assms generateImage_cases [of "ui p"] show ?thesis
    by (auto simp: loading_clean_def render_def handleKeyPress_def launch_def split: if_splits)
next
  case ClickGenerate
  with assms generateImage_cases [of "ui p"] show ?thesis
    by (auto simp: loading_clean_def render_def launch_def split: if_splits)
next
  case ClickDownload
  with assms show ?thesis
    by (auto simp: loading_clean_def render_def launch_def downloadImage_def
        split: if_splits option.splits)
next
  case (GenerateSettles r)
  with assms obtain qs where qs: "settle isGenerate (inflight p) = Some qs"
    and p': "p' = p\<lparr>ui := generateImage_resume r (ui p), inflight := qs\<rparr>"
    by (auto split: option.splits)
  have "filter isDownload qs = filter isDownload (inflight p)"
    using settle_other [OF qs] isGenerate_not_isDownload by blast
  then show ?thesis
    using assms(1) generateImage_resume_cases [of r "ui p"]
    by (auto simp: p' loading_clean_def)
next
  case (DownloadSettles d)
  with assms obtain qs s f where qs: "settle isDownload (inflight p) = Some qs"
    and d: "downloadImage_resume d (ui p) = (s, f)"
    and p': "p' = p\<lparr>ui := s, inflight := qs,
        saved := saved p @ (case f of None \<Rightarrow> [] | Some x \<Rightarrow> [x])\<rparr>"
    by (auto split: option.splits prod.splits)
  from settle_filter [OF qs] have "filter isDownload (inflight p) \<noteq> []" by auto
  with assms(1) have "generatedImage (ui p) \<noteq> None" by (auto simp: loading_clean_def)
  moreover have "generatedImage s = generatedImage (ui p)"
    using d downloadImage_resume_cases [of d "ui p"] by auto
  ultimately show ?thesis by (auto simp: p' loading_clean_def)
qed

lemma reachable_invariants: "reachable p \<Longrightarrow> generate_count_ok p \<and> loading_clean p"
proof (induction rule: reachable.induct)
  case reachable_initial
  show ?case
    by (simp add: generate_count_ok_def loading_clean_def initial_page_def initial_state_def)
next
  case (reachable_step p e p')
  then show ?case using generate_count_ok_step loading_clean_step by blast
qed

lemma exec_reachable: "reachable p \<Longrightarrow> exec es p = Some p' \<Longrightarrow> reachable p'"
proof (induction es arbitrary: p)
  case Nil
  then show ?case by simp
next
  case (Cons e es)
  then show ?case by (auto split: option.splits intro: reachable_step)
qed

section \<open>Claims about generateImage\<close>

text \<open>
  C1. When the prompt is empty or holds only white space and line terminators (what
  \<^verbatim>\<open>trim\<close> removes), \<^verbatim>\<open>generateImage\<close> returns in its synchronous part: it issues no
  request (the requests in flight are the same), leaves the generated image as it was, and
  sets the error to \<^verbatim>\<open>Please enter a prompt\<close>.
\<close>

theorem generateImage_blank_prompt:
  assumes "\<forall>c\<in>set (prompt (ui p)). isWhiteSpace c \<or> isLineTerminator c"
  shows "generateImage (ui p) = Done ((ui p)\<lparr>error := JString (js ''Please enter a prompt'')\<rparr>)
    \<and> inflight (launch (generateImage (ui p)) p) = inflight p
    \<and> generatedImage (ui (launch (generateImage (ui p)) p)) = generatedImage (ui p)
    \<and> error (ui (launch (generateImage (ui p)) p)) = JString (js ''Please enter a prompt'')"
proof -
  from assms have "trim (prompt (ui p)) = []"
    by (simp add: trim_empty_iff isTrimmed_def)
  then have "generateImage (ui p) = Done ((ui p)\<lparr>error := JString (js ''Please enter a prompt'')\<rparr>)"
    by (simp add: generateImage_def)
  then show ?thesis by (simp add: launch_def)
qed

theorem generateImage_blank_prompt_witness:
  "isWhiteSpace 0x20 \<and> isWhiteSpace 0x09 \<and> isLineTerminator 0x0A
   \<and> generateImage \<lparr>prompt = [0x20, 0x09, 0x0A], isGenerating = False, generatedImage = None,
       error = JString (js '''')\<rparr>
     = Done \<lparr>prompt = [0x20, 0x09, 0x0A], isGenerating = False, generatedImage = None,
       error = JString (js ''Please enter a prompt'')\<rparr>
   \<and> inflight (launch (generateImage \<lparr>prompt = [0x20, 0x09, 0x0A], isGenerating = False,
        generatedImage = None, error = JString (js '''')\<rparr>)
        \<lparr>ui = \<lparr>prompt = [0x20, 0x09, 0x0A], isGenerating = False, generatedImage = None,
               error = JString (js '''')\<rparr>, inflight = [], saved = []\<rparr>) = []"
  using generateImage_blank_prompt [of "\<lparr>ui = \<lparr>prompt = [0x20, 0x09, 0x0A], isGenerating = False,
     generatedImage = None, error = JString (js '''')\<rparr>, inflight = [], saved = []\<rparr>"]
  by (simp add: isWhiteSpace_def isLineTerminator_def launch_def)

text \<open>
  A successful run can complete with an error on display. The Download button stays
  enabled while a generation is in flight; a download that fails then writes its message
  after \<^verbatim>\<open>generateImage\<close> has cleared the error, and the success branch does not clear it
  again.
\<close>

theorem generateImage_success_error_counterexample:
  "exec [Change (js ''a''), ClickGenerate,
           GenerateSettles (Json (JObject [(js ''success'', JBool True),
             (js ''imageUrl'', JString (js ''u1'')), (js ''prompt'', JString (js ''a''))])),
           ClickGenerate, ClickDownload, DownloadSettles DownloadFetchRejects,
           GenerateSettles (Json (JObject [(js ''success'', JBool True),
             (js ''imageUrl'', JString (js ''u2'')), (js ''prompt'', JString (js ''a''))]))]
       initial_page
   = Some \<lparr>ui = \<lparr>prompt = js ''a'', isGenerating = False,
        generatedImage = Some \<lparr>url = JString (js ''u2''), image_prompt = JString (js ''a'')\<rparr>,
        error = JString (js ''Failed to download image'')\<rparr>, inflight = [], saved = []\<rparr>
   \<and> js ''Failed to download image'' \<noteq> js ''''"
  by (simp add: eval_defs)

text \<open>
  C2. When the response parses to JSON whose \<^verbatim>\<open>success\<close> is \<^verbatim>\<open>true\<close>, the resumed
  handler replaces the generated image, whatever it was and whatever the state then is, by
  \<^verbatim>\<open>{url: imageUrl, prompt: prompt}\<close> of that response, and writes no error. The run
  clears the error when it starts; so with nothing else happening while the request is in
  flight, the error is the empty string when the run completes.
\<close>

theorem generateImage_success:
  assumes "js_get data (js ''success'') = Inr (JBool True)"
  shows "\<exists>u q. js_get data (js ''imageUrl'') = Inr u \<and> js_get data (js ''prompt'') = Inr q
     \<and> (\<forall>s'. generateImage_resume (Json data) s' =
            s'\<lparr>generatedImage := Some \<lparr>url = u, image_prompt = q\<rparr>, isGenerating := False\<rparr>)
     \<and> (\<forall>s. trim (prompt s) \<noteq> [] \<longrightarrow>
            generateImage_run (Json data) s =
              s\<lparr>generatedImage := Some \<lparr>url = u, image_prompt = q\<rparr>,
                error := JString (js ''''), isGenerating := False\<rparr>)"
proof -
  from assms obtain u where u: "js_get data (js ''imageUrl'') = Inr u"
    using js_get_total by blast
  from assms obtain q where q: "js_get data (js ''prompt'') = Inr q"
    using js_get_total by blast
  have r: "generateImage_resume (Json data) s' =
      s'\<lparr>generatedImage := Some \<lparr>url = u, image_prompt = q\<rparr>, isGenerating := False\<rparr>" for s'
    using assms u q by (simp add: generateImage_resume_success)
  have "generateImage_run (Json data) s =
      s\<lparr>generatedImage := Some \<lparr>url = u, image_prompt = q\<rparr>,
        error := JString (js ''''), isGenerating := False\<rparr>" if "trim (prompt s) \<noteq> []" for s
    using that by (simp add: generateImage_run_def generateImage_def r)
  with u q r show ?thesis by blast
qed

theorem generateImage_success_witness:
  "js_get (JObject [(js ''success'', JBool True),
       (js ''imageUrl'', JString (js ''u2'')), (js ''prompt'', JString (js ''a''))]) (js ''success'')
     = Inr (JBool True)
   \<and> trim (js ''a'') = js ''a''
   \<and> generateImage_run (Json (JObject [(js ''success'', JBool True),
       (js ''imageUrl'', JString (js ''u2'')), (js ''prompt'', JString (js ''a''))]))
       \<lparr>prompt = js ''a'', isGenerating = False,
        generatedImage = Some \<lparr>url = JString (js ''u1''), image_prompt = JString (js ''b'')\<rparr>,
        error = JString (js ''Please enter a prompt'')\<rparr>
     = \<lparr>prompt = js ''a'', isGenerating = False,
        generatedImage = Some \<lparr>url = JString (js ''u2''), image_prompt = JString (js ''a'')\<rparr>,
        error = JString (js '''')\<rparr>"
  using generateImage_success [of "JObject [(js ''success'', JBool True),
       (js ''imageUrl'', JString (js ''u2'')), (js ''prompt'', JString (js ''a''))]"]
  by (simp add: js_def trim_def isTrimmed_def isWhiteSpace_def isLineTerminator_def)

text \<open>
  A failed run does not clear the result: no branch of the component writes
  \<^verbatim>\<open>generatedImage\<close> back to \<^verbatim>\<open>null\<close>. After a success and then a rejected
  \<^verbatim>\<open>fetch\<close>, the earlier image is still stored, and rendered beside the error.
\<close>

theorem generateImage_failure_keeps_result_counterexample:
  "exec [Change (js ''a''), ClickGenerate,
           GenerateSettles (Json (JObject [(js ''success'', JBool True),
             (js ''imageUrl'', JString (js ''u1'')), (js ''prompt'', JString (js ''a''))])),
           ClickGenerate, GenerateSettles FetchRejects]
       initial_page
   = Some \<lparr>ui = \<lparr>prompt = js ''a'', isGenerating = False,
        generatedImage = Some \<lparr>url = JString (js ''u1''), image_prompt = JString (js ''a'')\<rparr>,
        error = JString (js ''Network error. Please make sure the server is running.'')\<rparr>,
      inflight = [], saved = []\<rparr>
   \<and> generatedImage (generateImage_run FetchRejects
        \<lparr>prompt = js ''a'', isGenerating = False,
        generatedImage = Some \<lparr>url = JString (js ''u1''), image_prompt = JString (js ''a'')\<rparr>,
        error = JString (js '''')\<rparr>) \<noteq> None
   \<and> resultPanel (render \<lparr>prompt = js ''a'', isGenerating = False,
        generatedImage = Some \<lparr>url = JString (js ''u1''), image_prompt = JString (js ''a'')\<rparr>,
        error = JString (js ''Network error. Please make sure the server is running.'')\<rparr>)"
  by (simp add: eval_defs)

text \<open>
  C3. When a run fails (\<^verbatim>\<open>fetch\<close> rejects, or the parsed JSON has \<^verbatim>\<open>success\<close>
  \<^verbatim>\<open>false\<close>), the resumed handler leaves the generated image as it is, so a prior result
  stays rendered, and sets the error to the failure text: the network-error message, or the
  response's \<^verbatim>\<open>error\<close> when that is truthy and \<^verbatim>\<open>Failed to generate image\<close> otherwise.
  The same holds for the whole run from a prompt that is not blank.
\<close>

theorem generateImage_failure:
  assumes "r = FetchRejects \<or> (\<exists>data. r = Json data \<and> js_get data (js ''success'') = Inr (JBool False))"
  shows "generatedImage (generateImage_resume r s') = generatedImage s'
    \<and> (r = FetchRejects \<longrightarrow>
         error (generateImage_resume r s') =
           JString (js ''Network error. Please make sure the server is running.''))
    \<and> (\<forall>data. r = Json data \<longrightarrow>
         (\<exists>e. js_get data (js ''error'') = Inr e \<and>
              error (generateImage_resume r s') =
                (if truthy e then e else JString (js ''Failed to generate image''))))
    \<and> (\<forall>s. trim (prompt s) \<noteq> [] \<longrightarrow>
         generatedImage (generateImage_run r s) = generatedImage s \<and>
         error (generateImage_run r s) = error (generateImage_resume r s'))"
  using assms
proof
  assume r: "r = FetchRejects"
  have "generateImage_resume r t =
      t\<lparr>error := JString (js ''Network error. Please make sure the server is running.''),
        isGenerating := False\<rparr>" for t
    by (simp add: r generateImage_resume_throws generateImage_try_def)
  then show ?thesis
    by (simp add: r generateImage_run_def generateImage_def)
next
  assume "\<exists>data. r = Json data \<and> js_get data (js ''success'') = Inr (JBool False)"
  then obtain data where r: "r = Json data"
    and f: "js_get data (js ''success'') = Inr (JBool False)" by blast
  from f obtain e where e: "js_get data (js ''error'') = Inr e"
    using js_get_total by blast
  have "generateImage_resume r t =
      t\<lparr>error := (if truthy e then e else JString (js ''Failed to generate image'')),
        isGenerating := False\<rparr>" for t
    using f e by (simp add: r generateImage_resume_failure)
  then show ?thesis
    using e by (simp add: r generateImage_run_def generateImage_def)
qed

theorem generateImage_failure_witness:
  "js_get (JObject [(js ''success'', JBool False), (js ''error'', JString (js ''quota''))])
       (js ''success'') = Inr (JBool False)
   \<and> generatedImage (generateImage_resume FetchRejects
       \<lparr>prompt = js ''a'', isGenerating = True,
        generatedImage = Some \<lparr>url = JString (js ''u1''), image_prompt = JString (js ''a'')\<rparr>,
        error = JString (js '''')\<rparr>)
     = Some \<lparr>url = JString (js ''u1''), image_prompt = JString (js ''a'')\<rparr>
   \<and> error (generateImage_resume FetchRejects
       \<lparr>prompt = js ''a'', isGenerating = True,
        generatedImage = Some \<lparr>url = JString (js ''u1''), image_prompt = JString (js ''a'')\<rparr>,
        error = JString (js '''')\<rparr>)
     = JString (js ''Network error. Please make sure the server is running.'')
   \<and> error (generateImage_resume
        (Json (JObject [(js ''success'', JBool False), (js ''error'', JString (js ''quota''))]))
       \<lparr>prompt = js ''a'', isGenerating = True,
        generatedImage = Some \<lparr>url = JString (js ''u1''), image_prompt = JString (js ''a'')\<rparr>,
        error = JString (js '''')\<rparr>)
     = JString (js ''quota'')"
  using generateImage_failure [of FetchRejects
       "\<lparr>prompt = js ''a'', isGenerating = True,
        generatedImage = Some \<lparr>url = JString (js ''u1''), image_prompt = JString (js ''a'')\<rparr>,
        error = JString (js '''')\<rparr>"]
    generateImage_failure
      [of "Json (JObject [(js ''success'', JBool False), (js ''error'', JString (js ''quota''))])"
       "\<lparr>prompt = js ''a'', isGenerating = True,
        generatedImage = Some \<lparr>url = JString (js ''u1''), image_prompt = JString (js ''a'')\<rparr>,
        error = JString (js '''')\<rparr>"]
  by (simp add: js_def)

text \<open>
  C9. A run from a prompt that is not blank sets \<^verbatim>\<open>isGenerating\<close> and issues the request;
  however the request settles (data, a rejected \<^verbatim>\<open>fetch\<close>, a rejected
  \<^verbatim>\<open>response.json()\<close>) and whatever the state is then, the resumed handler ends with
  \<^verbatim>\<open>isGenerating\<close> reset.
\<close>

theorem generateImage_loading_flag:
  assumes "trim (prompt s) \<noteq> []"
  shows "generateImage s =
           Await (s\<lparr>isGenerating := True, error := JString (js '''')\<rparr>)
                 (PostGenerateImage (trim (prompt s)))
    \<and> (\<forall>r s'. \<not> isGenerating (generateImage_resume r s'))
    \<and> (\<forall>r. \<not> isGenerating (generateImage_run r s))"
  using assms
  by (simp add: generateImage_def generateImage_run_def generateImage_resume_not_generating)

theorem generateImage_loading_flag_witness:
  "trim (js ''a cat'') = js ''a cat''
   \<and> generateImage \<lparr>prompt = js ''a cat'', isGenerating = False, generatedImage = None,
       error = JString (js '''')\<rparr>
     = Await \<lparr>prompt = js ''a cat'', isGenerating = True, generatedImage = None,
         error = JString (js '''')\<rparr> (PostGenerateImage (js ''a cat''))
   \<and> \<not> isGenerating (generateImage_run FetchRejects \<lparr>prompt = js ''a cat'', isGenerating = False,
         generatedImage = None, error = JString (js '''')\<rparr>)
   \<and> \<not> isGenerating (generateImage_run (Json (JObject [(js ''success'', JBool True)]))
         \<lparr>prompt = js ''a cat'', isGenerating = False,
         generatedImage = None, error = JString (js '''')\<rparr>)"
  using generateImage_loading_flag [of "\<lparr>prompt = js ''a cat'', isGenerating = False,
     generatedImage = None, error = JString (js '''')\<rparr>"]
  by (simp add: js_def trim_def isTrimmed_def isWhiteSpace_def isLineTerminator_def)

text \<open>
  C10. When the parsed JSON has \<^verbatim>\<open>success\<close> \<^verbatim>\<open>false\<close> and its \<^verbatim>\<open>error\<close> is absent
  (the read gives \<^verbatim>\<open>undefined\<close>) or the empty string, the error set is the fallback
  \<^verbatim>\<open>Failed to generate image\<close>.
\<close>

theorem generateImage_fallback_error:
  assumes "js_get data (js ''success'') = Inr (JBool False)"
    and "js_get data (js ''error'') = Inr JUndefined \<or> js_get data (js ''error'') = Inr (JString [])"
  shows "error (generateImage_resume (Json data) s) = JString (js ''Failed to generate image'')"
  using assms by (auto simp: generateImage_resume_failure)

theorem generateImage_fallback_error_witness:
  "js_get (JObject [(js ''success'', JBool False)]) (js ''success'') = Inr (JBool False)
   \<and> js_get (JObject [(js ''success'', JBool False)]) (js ''error'') = Inr JUndefined
   \<and> error (generateImage_resume (Json (JObject [(js ''success'', JBool False)])) initial_state)
     = JString (js ''Failed to generate image'')
   \<and> js_get (JObject [(js ''success'', JBool False), (js ''error'', JString [])]) (js ''error'')
     = Inr (JString [])
   \<and> error (generateImage_resume
        (Json (JObject [(js ''success'', JBool False), (js ''error'', JString [])])) initial_state)
     = JString (js ''Failed to generate image'')"
  using generateImage_fallback_error [of "JObject [(js ''success'', JBool False)]" initial_state]
    generateImage_fallback_error
      [of "JObject [(js ''success'', JBool False), (js ''error'', JString [])]" initial_state]
  by (simp add: js_def)

section \<open>Claims about downloadImage\<close>

text \<open>
  The failure path of \<^verbatim>\<open>downloadImage\<close> changes the displayed state and saves nothing:
  its \<^verbatim>\<open>catch\<close> calls \<^verbatim>\<open>setError\<close>.
\<close>

theorem downloadImage_failure_counterexample:
  "downloadImage_run DownloadFetchRejects
       \<lparr>prompt = js ''a'', isGenerating = False,
        generatedImage = Some \<lparr>url = JString (js ''u1''), image_prompt = JString (js ''a'')\<rparr>,
        error = JString (js '''')\<rparr>
     = (\<lparr>prompt = js ''a'', isGenerating = False,
        generatedImage = Some \<lparr>url = JString (js ''u1''), image_prompt = JString (js ''a'')\<rparr>,
        error = JString (js ''Failed to download image'')\<rparr>, None)
   \<and> JString (js ''Failed to download image'') \<noteq> JString (js '''')"
  by (simp add: eval_defs)

text \<open>
  C5. With a generated image displayed, \<^verbatim>\<open>downloadImage\<close> requests the image's URL and
  changes nothing while doing so. When the body arrives, the resumed handler saves its bytes
  as a file and leaves the state it finds unchanged: prompt, generated image and error are
  as before. When \<^verbatim>\<open>fetch\<close> or \<^verbatim>\<open>response.blob()\<close> rejects, it saves nothing, leaves
  prompt and generated image unchanged, and sets the error to
  \<^verbatim>\<open>Failed to download image\<close>.
\<close>

theorem downloadImage_frame:
  assumes "generatedImage s = Some g"
  shows "downloadImage s = Await s (GetImage (url g))
    \<and> (\<forall>b s'. downloadImage_resume (Blob b) s' =
           (s', Some \<lparr>filename = js ''generated-image.png'', bytes = b\<rparr>))
    \<and> (\<forall>d s'. d = DownloadFetchRejects \<or> d = BlobRejects \<longrightarrow>
           downloadImage_resume d s' =
             (s'\<lparr>error := JString (js ''Failed to download image'')\<rparr>, None))
    \<and> (\<forall>b. downloadImage_run (Blob b) s =
           (s, Some \<lparr>filename = js ''generated-image.png'', bytes = b\<rparr>))
    \<and> (\<forall>d. d = DownloadFetchRejects \<or> d = BlobRejects \<longrightarrow>
           downloadImage_run d s = (s\<lparr>error := JString (js ''Failed to download image'')\<rparr>, None))"
  using assms
  by (auto simp: downloadImage_def downloadImage_resume_def downloadImage_try_def
      downloadImage_run_def)

theorem downloadImage_frame_witness:
  "downloadImage_run (Blob [0x89, 0x50])
       \<lparr>prompt = js ''a'', isGenerating = False,
        generatedImage = Some \<lparr>url = JString (js ''u1''), image_prompt = JString (js ''a'')\<rparr>,
        error = JString (js '''')\<rparr>
     = (\<lparr>prompt = js ''a'', isGenerating = False,
        generatedImage = Some \<lparr>url = JString (js ''u1''), image_prompt = JString (js ''a'')\<rparr>,
        error = JString (js '''')\<rparr>,
        Some \<lparr>filename = js ''generated-image.png'', bytes = [0x89, 0x50]\<rparr>)
   \<and> downloadImage_run BlobRejects
       \<lparr>prompt = js ''a'', isGenerating = False,
        generatedImage = Some \<lparr>url = JString (js ''u1''), image_prompt = JString (js ''a'')\<rparr>,
        error = JString (js '''')\<rparr>
     = (\<lparr>prompt = js ''a'', isGenerating = False,
        generatedImage = Some \<lparr>url = JString (js ''u1''), image_prompt = JString (js ''a'')\<rparr>,
        error = JString (js ''Failed to download image'')\<rparr>, None)"
  using downloadImage_frame [of "\<lparr>prompt = js ''a'', isGenerating = False,
        generatedImage = Some \<lparr>url = JString (js ''u1''), image_prompt = JString (js ''a'')\<rparr>,
        error = JString (js '''')\<rparr>" "\<lparr>url = JString (js ''u1''), image_prompt = JString (js ''a'')\<rparr>"]
  by simp

text \<open>
  C8. Whenever \<^verbatim>\<open>downloadImage\<close> saves a file, the file's name is
  \<^verbatim>\<open>generated-image.png\<close>.
\<close>

theorem downloadImage_filename:
  assumes "downloadImage_run d s = (s', Some f) \<or> downloadImage_resume d s = (s', Some f)"
  shows "filename f = js ''generated-image.png''"
  using assms
  by (auto simp: downloadImage_def downloadImage_resume_def downloadImage_try_def
      downloadImage_run_def split: option.splits download.splits)

theorem downloadImage_filename_witness:
  "downloadImage_run (Blob [0x89, 0x50])
       \<lparr>prompt = js ''a'', isGenerating = False,
        generatedImage = Some \<lparr>url = JString (js ''u1''), image_prompt = JString (js ''a'')\<rparr>,
        error = JString (js '''')\<rparr>
     = (\<lparr>prompt = js ''a'', isGenerating = False,
        generatedImage = Some \<lparr>url = JString (js ''u1''), image_prompt = JString (js ''a'')\<rparr>,
        error = JString (js '''')\<rparr>,
        Some \<lparr>filename = js ''generated-image.png'', bytes = [0x89, 0x50]\<rparr>)
   \<and> filename \<lparr>filename = js ''generated-image.png'', bytes = [0x89, 0x50]\<rparr>
     = js ''generated-image.png''"
proof -
  have h: "downloadImage_run (Blob [0x89, 0x50])
       \<lparr>prompt = js ''a'', isGenerating = False,
        generatedImage = Some \<lparr>url = JString (js ''u1''), image_prompt = JString (js ''a'')\<rparr>,
        error = JString (js '''')\<rparr>
     = (\<lparr>prompt = js ''a'', isGenerating = False,
        generatedImage = Some \<lparr>url = JString (js ''u1''), image_prompt = JString (js ''a'')\<rparr>,
        error = JString (js '''')\<rparr>,
        Some \<lparr>filename = js ''generated-image.png'', bytes = [0x89, 0x50]\<rparr>)"
    by (simp add: downloadImage_run_def downloadImage_def downloadImage_resume_def
        downloadImage_try_def)
  from downloadImage_filename [OF disjI1, OF h] h show ?thesis by simp
qed

section \<open>Claims about the page\<close>

text \<open>
  The error box and the result panel can be rendered together: after a success, Enter on a
  blank prompt sets the validation message and the image stays.
\<close>

theorem error_with_result_counterexample:
  "exec [Change (js ''a''), ClickGenerate,
           GenerateSettles (Json (JObject [(js ''success'', JBool True),
             (js ''imageUrl'', JString (js ''u1'')), (js ''prompt'', JString (js ''a''))])),
           Change (js '' ''), KeyPress (js ''Enter'')]
       initial_page
   = Some \<lparr>ui = \<lparr>prompt = js '' '', isGenerating = False,
        generatedImage = Some \<lparr>url = JString (js ''u1''), image_prompt = JString (js ''a'')\<rparr>,
        error = JString (js ''Please enter a prompt'')\<rparr>, inflight = [], saved = []\<rparr>
   \<and> render \<lparr>prompt = js '' '', isGenerating = False,
        generatedImage = Some \<lparr>url = JString (js ''u1''), image_prompt = JString (js ''a'')\<rparr>,
        error = JString (js ''Please enter a prompt'')\<rparr>
     = \<lparr>textareaDisabled = False, generateDisabled = True, errorBox = True,
        resultPanel = True, loadingPanel = False\<rparr>"
  by (simp add: eval_defs)

text \<open>
  C4. In every reachable state of the page, the loading panel and the result panel are not
  rendered together, and the loading panel and the error box are not rendered together.
\<close>

theorem render_exclusive:
  assumes "reachable p"
  shows "\<not> (loadingPanel (render (ui p)) \<and> resultPanel (render (ui p)))
    \<and> \<not> (loadingPanel (render (ui p)) \<and> errorBox (render (ui p)))"
  using reachable_invariants [OF assms]
  by (auto simp: render_def loading_clean_def)

theorem render_exclusive_witness:
  "reachable \<lparr>ui = \<lparr>prompt = js ''a'', isGenerating = True, generatedImage = None,
          error = JString (js '''')\<rparr>, inflight = [PostGenerateImage (js ''a'')], saved = []\<rparr>
   \<and> render \<lparr>prompt = js ''a'', isGenerating = True, generatedImage = None,
       error = JString (js '''')\<rparr>
     = \<lparr>textareaDisabled = True, generateDisabled = True, errorBox = False,
        resultPanel = False, loadingPanel = True\<rparr>"
proof -
  have e: "exec [Change (js ''a''), ClickGenerate] initial_page
      = Some \<lparr>ui = \<lparr>prompt = js ''a'', isGenerating = True, generatedImage = None,
          error = JString (js '''')\<rparr>, inflight = [PostGenerateImage (js ''a'')], saved = []\<rparr>"
    by (simp add: eval_defs)
  have r: "reachable \<lparr>ui = \<lparr>prompt = js ''a'', isGenerating = True, generatedImage = None,
          error = JString (js '''')\<rparr>, inflight = [PostGenerateImage (js ''a'')], saved = []\<rparr>"
    using exec_reachable [OF reachable_initial e] .
  from render_exclusive [OF r] r show ?thesis
    by (simp add: render_def)
qed

text \<open>
  C6. Two kinds of error text reach the user. Whatever happens to the page, the error
  afterwards is the error before, or the empty string (a run clearing it), or
  \<^item> the validation message, set by Enter on a blank prompt; or
  \<^item> a failure message of a request that has just settled: for \<^verbatim>\<open>generateImage\<close> the
    network-error message when the \<^verbatim>\<open>try\<close> block threw, and for JSON without success
    its truthy \<^verbatim>\<open>error\<close> or the fallback \<^verbatim>\<open>Failed to generate image\<close>; for
    \<^verbatim>\<open>downloadImage\<close> the message \<^verbatim>\<open>Failed to download image\<close> when \<^verbatim>\<open>fetch\<close> or the
    reading of the body rejected.
  No event sets any other text.
\<close>

theorem error_texts:
  assumes "step e p = Some p'"
  shows "error (ui p') = error (ui p)
    \<or> error (ui p') = JString (js '''')
    \<or> (e = KeyPress (js ''Enter'') \<and> trim (prompt (ui p)) = [] \<and>
          error (ui p') = JString (js ''Please enter a prompt''))
    \<or> (\<exists>r. e = GenerateSettles r \<and>
          ((\<exists>x. generateImage_try r (ui p) = Inl x) \<and>
             error (ui p') =
               JString (js ''Network error. Please make sure the server is running.'')
           \<or> (\<exists>data v. r = Json data \<and> js_get data (js ''success'') = Inr v \<and> \<not> truthy v \<and>
                 (error (ui p') = JString (js ''Failed to generate image'')
                  \<or> truthy (error (ui p')) \<and>
                     js_get data (js ''error'') = Inr (error (ui p'))))))
    \<or> (\<exists>d. e = DownloadSettles d \<and> (d = DownloadFetchRejects \<or> d = BlobRejects) \<and>
          error (ui p') = JString (js ''Failed to download image''))"
proof (cases e)
  case (Change v)
  with assms show ?thesis by (auto split: if_splits)
next
  case (KeyPress key)
  with assms show ?thesis
    by (auto simp: handleKeyPress_def launch_def generateImage_def split: if_splits)
next
  case ClickGenerate
  with assms show ?thesis
    by (auto simp: launch_def generateImage_def render_def split: if_splits)
next
  case ClickDownload
  with assms show ?thesis
    by (auto simp: launch_def downloadImage_def split: if_splits option.splits)
next
  case (GenerateSettles r)
  with assms obtain qs where p': "p' = p\<lparr>ui := generateImage_resume r (ui p), inflight := qs\<rparr>"
    by (auto split: option.splits)
  show ?thesis
  proof (cases "generateImage_try r (ui p)")
    case (Inl x)
    then show ?thesis
      by (simp add: p' GenerateSettles generateImage_resume_throws)
  next
    case (Inr s)
    then obtain data v where r: "r = Json data"
      and v: "js_get data (js ''success'') = Inr v"
      by (auto simp: generateImage_try_def split: response.splits sum.splits)
    show ?thesis
    proof (cases "truthy v")
      case True
      from v obtain u where u: "js_get data (js ''imageUrl'') = Inr u"
        using js_get_total by blast
      from v obtain q where q: "js_get data (js ''prompt'') = Inr q"
        using js_get_total by blast
      from generateImage_resume_success [OF v True u q] show ?thesis
        by (simp add: p' r)
    next
      case False
      from v obtain x where x: "js_get data (js ''error'') = Inr x"
        using js_get_total by blast
      from generateImage_resume_failure [OF v False x] v False x show ?thesis
        by (auto simp: p' r GenerateSettles)
    qed
  qed
next
  case (DownloadSettles d)
  with assms obtain qs s f where d: "downloadImage_resume d (ui p) = (s, f)"
    and p': "p' = p\<lparr>ui := s, inflight := qs,
        saved := saved p @ (case f of None \<Rightarrow> [] | Some x \<Rightarrow> [x])\<rparr>"
    by (auto split: option.splits prod.splits)
  from d show ?thesis
    by (cases d) (auto simp: p' DownloadSettles downloadImage_resume_def downloadImage_try_def)
qed

theorem error_texts_witness:
  "step (KeyPress (js ''Enter''))
      \<lparr>ui = \<lparr>prompt = js '' '', isGenerating = False, generatedImage = None,
        error = JString (js '''')\<rparr>, inflight = [], saved = []\<rparr>
     = Some \<lparr>ui = \<lparr>prompt = js '' '', isGenerating = False, generatedImage = None,
        error = JString (js ''Please enter a prompt'')\<rparr>, inflight = [], saved = []\<rparr>
   \<and> step (GenerateSettles
        (Json (JObject [(js ''success'', JBool False), (js ''error'', JString (js ''quota''))])))
      \<lparr>ui = \<lparr>prompt = js ''a'', isGenerating = True, generatedImage = None,
        error = JString (js '''')\<rparr>, inflight = [PostGenerateImage (js ''a'')], saved = []\<rparr>
     = Some \<lparr>ui = \<lparr>prompt = js ''a'', isGenerating = False, generatedImage = None,
        error = JString (js ''quota'')\<rparr>, inflight = [], saved = []\<rparr>
   \<and> js_get (JObject [(js ''success'', JBool False), (js ''error'', JString (js ''quota''))])
        (js ''error'') = Inr (JString (js ''quota''))
   \<and> step (DownloadSettles DownloadFetchRejects)
      \<lparr>ui = \<lparr>prompt = js ''a'', isGenerating = False,
        generatedImage = Some \<lparr>url = JString (js ''u1''), image_prompt = JString (js ''a'')\<rparr>,
        error = JString (js '''')\<rparr>, inflight = [GetImage (JString (js ''u1''))], saved = []\<rparr>
     = Some \<lparr>ui = \<lparr>prompt = js ''a'', isGenerating = False,
        generatedImage = Some \<lparr>url = JString (js ''u1''), image_prompt = JString (js ''a'')\<rparr>,
        error = JString (js ''Failed to download image'')\<rparr>, inflight = [], saved = []\<rparr>"
proof -
  have k: "step (KeyPress (js ''Enter''))
      \<lparr>ui = \<lparr>prompt = js '' '', isGenerating = False, generatedImage = None,
        error = JString (js '''')\<rparr>, inflight = [], saved = []\<rparr>
     = Some \<lparr>ui = \<lparr>prompt = js '' '', isGenerating = False, generatedImage = None,
        error = JString (js ''Please enter a prompt'')\<rparr>, inflight = [], saved = []\<rparr>"
    by (simp add: eval_defs)
  have s: "step (GenerateSettles
        (Json (JObject [(js ''success'', JBool False), (js ''error'', JString (js ''quota''))])))
      \<lparr>ui = \<lparr>prompt = js ''a'', isGenerating = True, generatedImage = None,
        error = JString (js '''')\<rparr>, inflight = [PostGenerateImage (js ''a'')], saved = []\<rparr>
     = Some \<lparr>ui = \<lparr>prompt = js ''a'', isGenerating = False, generatedImage = None,
        error = JString (js ''quota'')\<rparr>, inflight = [], saved = []\<rparr>"
    by (simp add: eval_defs)
  have d: "step (DownloadSettles DownloadFetchRejects)
      \<lparr>ui = \<lparr>prompt = js ''a'', isGenerating = False,
        generatedImage = Some \<lparr>url = JString (js ''u1''), image_prompt = JString (js ''a'')\<rparr>,
        error = JString (js '''')\<rparr>, inflight = [GetImage (JString (js ''u1''))], saved = []\<rparr>
     = Some \<lparr>ui = \<lparr>prompt = js ''a'', isGenerating = False,
        generatedImage = Some \<lparr>url = JString (js ''u1''), image_prompt = JString (js ''a'')\<rparr>,
        error = JString (js ''Failed to download image'')\<rparr>, inflight = [], saved = []\<rparr>"
    by (simp add: eval_defs)
  from error_texts [OF k] error_texts [OF s] error_texts [OF d] k s d show ?thesis
    by (simp add: js_def)
qed

text \<open>
  A second request can start while a generation is in flight: the Download button is
  rendered whenever an image is stored, and \<^verbatim>\<open>downloadImage\<close> does not test
  \<^verbatim>\<open>isGenerating\<close>.
\<close>

theorem download_while_generating_counterexample:
  "exec [Change (js ''a''), ClickGenerate,
           GenerateSettles (Json (JObject [(js ''success'', JBool True),
             (js ''imageUrl'', JString (js ''u1'')), (js ''prompt'', JString (js ''a''))])),
           ClickGenerate] initial_page
     = Some \<lparr>ui = \<lparr>prompt = js ''a'', isGenerating = True,
        generatedImage = Some \<lparr>url = JString (js ''u1''), image_prompt = JString (js ''a'')\<rparr>,
        error = JString (js '''')\<rparr>, inflight = [PostGenerateImage (js ''a'')], saved = []\<rparr>
   \<and> step ClickDownload \<lparr>ui = \<lparr>prompt = js ''a'', isGenerating = True,
        generatedImage = Some \<lparr>url = JString (js ''u1''), image_prompt = JString (js ''a'')\<rparr>,
        error = JString (js '''')\<rparr>, inflight = [PostGenerateImage (js ''a'')], saved = []\<rparr>
     = Some \<lparr>ui = \<lparr>prompt = js ''a'', isGenerating = True,
        generatedImage = Some \<lparr>url = JString (js ''u1''), image_prompt = JString (js ''a'')\<rparr>,
        error = JString (js '''')\<rparr>,
        inflight = [PostGenerateImage (js ''a''), GetImage (JString (js ''u1''))], saved = []\<rparr>"
  by (simp add: eval_defs)

text \<open>
  C7. In every reachable state at most one \<^verbatim>\<open>generateImage\<close> request is in flight, and
  one is in flight exactly while \<^verbatim>\<open>isGenerating\<close> is set. While it is set, the page takes
  no click on Generate, no key press and no typing, and \<^verbatim>\<open>handleKeyPress\<close> itself would
  do nothing; so no further \<^verbatim>\<open>generateImage\<close> request starts until the one in flight
  settles. A click on Download, whenever an image is stored, starts a download request.
\<close>

theorem one_generate_request:
  assumes "reachable p"
  shows "length (filter isGenerate (inflight p)) = (if isGenerating (ui p) then 1 else 0)
    \<and> (isGenerating (ui p) \<longrightarrow>
         step ClickGenerate p = None \<and>
         (\<forall>key. step (KeyPress key) p = None \<and> handleKeyPress key (ui p) = Done (ui p)) \<and>
         (\<forall>v. step (Change v) p = None))
    \<and> (\<forall>g. generatedImage (ui p) = Some g \<longrightarrow>
         step ClickDownload p = Some (p\<lparr>inflight := inflight p @ [GetImage (url g)]\<rparr>))"
  using reachable_invariants [OF assms]
  by (auto simp: generate_count_ok_def render_def handleKeyPress_def launch_def downloadImage_def)

theorem one_generate_request_witness:
  "reachable \<lparr>ui = \<lparr>prompt = js ''a'', isGenerating = True,
        generatedImage = Some \<lparr>url = JString (js ''u1''), image_prompt = JString (js ''a'')\<rparr>,
        error = JString (js '''')\<rparr>, inflight = [PostGenerateImage (js ''a'')], saved = []\<rparr>
   \<and> length (filter isGenerate [PostGenerateImage (js ''a'')]) = 1
   \<and> step ClickGenerate \<lparr>ui = \<lparr>prompt = js ''a'', isGenerating = True,
        generatedImage = Some \<lparr>url = JString (js ''u1''), image_prompt = JString (js ''a'')\<rparr>,
        error = JString (js '''')\<rparr>, inflight = [PostGenerateImage (js ''a'')], saved = []\<rparr> = None
   \<and> step (KeyPress (js ''Enter'')) \<lparr>ui = \<lparr>prompt = js ''a'', isGenerating = True,
        generatedImage = Some \<lparr>url = JString (js ''u1''), image_prompt = JString (js ''a'')\<rparr>,
        error = JString (js '''')\<rparr>, inflight = [PostGenerateImage (js ''a'')], saved = []\<rparr> = None"
proof -
  have e: "exec [Change (js ''a''), ClickGenerate,
           GenerateSettles (Json (JObject [(js ''success'', JBool True),
             (js ''imageUrl'', JString (js ''u1'')), (js ''prompt'', JString (js ''a''))])),
           ClickGenerate] initial_page
      = Some \<lparr>ui = \<lparr>prompt = js ''a'', isGenerating = True,
        generatedImage = Some \<lparr>url = JString (js ''u1''), image_prompt = JString (js ''a'')\<rparr>,
        error = JString (js '''')\<rparr>, inflight = [PostGenerateImage (js ''a'')], saved = []\<rparr>"
    by (simp add: eval_defs)
  have r: "reachable \<lparr>ui = \<lparr>prompt = js ''a'', isGenerating = True,
        generatedImage = Some \<lparr>url = JString (js ''u1''), image_prompt = JString (js ''a'')\<rparr>,
        error = JString (js '''')\<rparr>, inflight = [PostGenerateImage (js ''a'')], saved = []\<rparr>"
    using exec_reachable [OF reachable_initial e] .
  from one_generate_request [OF r] r show ?thesis
    by simp
qed

end
